theory Spec2Isabelle
  imports Main
begin

section \<open>The voice agent of conai.py\<close>

text \<open>
  The program is a sequential loop around three external services: speech capture
  (speech_recognition), a chat model (Gemini) and speech synthesis (ElevenLabs, with
  pyttsx3 as the fallback). The services are not part of the program, so what they do in
  one turn is an input of the model: a record that says, for each collaborator call,
  whether it returns (and what) or which exception it raises. The methods of
  \<^verbatim>\<open>VoiceAI\<close> are functions from that record to the list of observable events of the
  call and its result, where the result is \<open>Inl e\<close> when the method raises \<open>e\<close> to its
  caller and \<open>Inr v\<close> when it returns \<open>v\<close>.
\<close>

subsection \<open>Exceptions\<close>

text \<open>
  Every handler of the program is \<^verbatim>\<open>except Exception\<close> or names a subclass of
  \<^verbatim>\<open>Exception\<close>, apart from \<^verbatim>\<open>except KeyboardInterrupt\<close> in \<^verbatim>\<open>main\<close>.
  \<^verbatim>\<open>KeyboardInterrupt\<close> and \<^verbatim>\<open>SystemExit\<close> derive from \<^verbatim>\<open>BaseException\<close> only,
  so \<^verbatim>\<open>except Exception\<close> does not catch them. An \<open>Exception\<close> carries its class
  and its message \<^verbatim>\<open>str(e)\<close>; \<open>SystemExit\<close> carries the exit status.
\<close>

datatype exc_class = WaitTimeoutError | UnknownValueError | OtherException

datatype exn = Exception exc_class string | KeyboardInterrupt | SystemExit nat

subsection \<open>Events\<close>

text \<open>
  The trace of a run: every \<^verbatim>\<open>print\<close> with its argument, and every call of a method
  that stands for a collaborator of the specification, with its argument:
  \<open>Listen\<close> for \<^verbatim>\<open>self.listen()\<close> (SpeechCapture.listen),
  \<open>GetAIResponse t\<close> for \<^verbatim>\<open>self.get_ai_response(t)\<close> (DialogueEngine.generate),
  \<open>Speak t\<close> for \<^verbatim>\<open>self.speak(t)\<close> (SpeechSynthesis.speak) and
  \<open>FallbackSpeak t\<close> for \<^verbatim>\<open>self.fallback_speak(t)\<close> (the fallback synthesis path).
\<close>

datatype event =
    Print string
  | Listen
  | GetAIResponse string
  | Speak string
  | FallbackSpeak string

fun is_dialogue_call :: "event \<Rightarrow> bool" where
  "is_dialogue_call (GetAIResponse t) = True"
| "is_dialogue_call ev = False"

fun is_synthesis_call :: "event \<Rightarrow> bool" where
  "is_synthesis_call (Speak t) = True"
| "is_synthesis_call ev = False"

fun is_fallback_call :: "event \<Rightarrow> bool" where
  "is_fallback_call (FallbackSpeak t) = True"
| "is_fallback_call ev = False"

fun is_call :: "event \<Rightarrow> bool" where
  "is_call (Print t) = False"
| "is_call (FallbackSpeak t) = False"
| "is_call ev = True"

subsection \<open>Strings\<close>

text \<open>
  A Python \<^verbatim>\<open>str\<close> is modelled as a \<open>string\<close>, a list of characters with the code
  points 0 to 255. On these code points \<^verbatim>\<open>str.lower()\<close> maps A to Z (65 to 90) and the
  Latin-1 capitals (192 to 222 without the multiplication sign 215) to the code point 32
  above and leaves every other character as it is, and \<^verbatim>\<open>str.strip()\<close> without an
  argument removes the leading and trailing characters for which \<^verbatim>\<open>str.isspace()\<close>
  holds: 9 to 13, 28 to 32, 133 and 160.
\<close>

definition py_lower_char :: "char \<Rightarrow> char" where
  "py_lower_char c =
     (let n = (of_char c :: nat)
      in if (65 \<le> n \<and> n \<le> 90) \<or> (192 \<le> n \<and> n \<le> 222 \<and> n \<noteq> 215)
         then char_of (n + 32) else c)"

definition py_lower :: "string \<Rightarrow> string" where
  "py_lower s = map py_lower_char s"

definition py_isspace :: "char \<Rightarrow> bool" where
  "py_isspace c =
     (let n = (of_char c :: nat)
      in (9 \<le> n \<and> n \<le> 13) \<or> (28 \<le> n \<and> n \<le> 32) \<or> n = 133 \<or> n = 160)"

definition py_strip :: "string \<Rightarrow> string" where
  "py_strip s = rev (dropWhile py_isspace (rev (dropWhile py_isspace s)))"

text \<open>
  Truth value of an optional string: \<^verbatim>\<open>not x\<close> holds for \<^verbatim>\<open>None\<close> and for the
  empty string.
\<close>

fun py_not :: "string option \<Rightarrow> bool" where
  "py_not None = True"
| "py_not (Some t) = (t = [])"

subsection \<open>The collaborators in one turn\<close>

text \<open>
  \<open>capture\<close>: what the \<^verbatim>\<open>try\<close> block of \<^verbatim>\<open>listen\<close> gets from the microphone and the
  recogniser (\<^verbatim>\<open>recognizer.listen\<close>, then \<^verbatim>\<open>recognize_google\<close>): the first exception
  raised, or the recognised text. The microphone, already opened once by the calibration
  in \<^verbatim>\<open>__init__\<close>, is taken to open.
  \<open>gemini\<close>: \<^verbatim>\<open>chat_session.send_message(user_input)\<close> followed by \<^verbatim>\<open>response.text\<close>.
  \<open>eleven\<close>: \<^verbatim>\<open>text_to_speech.convert(...)\<close> followed by \<^verbatim>\<open>play(audio)\<close>;
  \<open>None\<close> when both return.
  \<open>pyttsx\<close>: \<^verbatim>\<open>say(text)\<close> followed by \<^verbatim>\<open>runAndWait()\<close> of the fallback engine.
\<close>

record turn_env =
  capture :: "exn + string"
  gemini :: "exn + string"
  eleven :: "exn option"
  pyttsx :: "exn option"

subsection \<open>The methods of VoiceAI\<close>

definition listen :: "turn_env \<Rightarrow> event list \<times> (exn + string option)" where
  "listen env =
     (case capture env of
        Inr text \<Rightarrow>
          ([Listen, Print (CHR 0x0A # ''Listening...''), Print (''You said: '' @ text)],
           Inr (Some text))
      | Inl (Exception WaitTimeoutError m) \<Rightarrow>
          ([Listen, Print (CHR 0x0A # ''Listening...'')], Inr None)
      | Inl (Exception UnknownValueError m) \<Rightarrow>
          ([Listen, Print (CHR 0x0A # ''Listening...''),
            Print ''Sorry, I could not understand that.''], Inr None)
      | Inl (Exception OtherException m) \<Rightarrow>
          ([Listen, Print (CHR 0x0A # ''Listening...''),
            Print (''Listening error: '' @ m)], Inr None)
      | Inl e \<Rightarrow>
          ([Listen, Print (CHR 0x0A # ''Listening...'')], Inl e))"

definition get_ai_response :: "turn_env \<Rightarrow> string \<Rightarrow> event list \<times> (exn + string)" where
  "get_ai_response env user_input =
     (case gemini env of
        Inr text \<Rightarrow>
          (let ai_text = py_strip text
           in ([GetAIResponse user_input, Print ''Thinking...'',
                Print (''AI says: '' @ ai_text)], Inr ai_text))
      | Inl (Exception c m) \<Rightarrow>
          ([GetAIResponse user_input, Print ''Thinking...'',
            Print (''Gemini API error: '' @ m)], Inr ''trouble responding.'')
      | Inl e \<Rightarrow>
          ([GetAIResponse user_input, Print ''Thinking...''], Inl e))"

definition fallback_speak :: "turn_env \<Rightarrow> string \<Rightarrow> event list \<times> (exn + unit)" where
  "fallback_speak env text =
     (case pyttsx env of
        None \<Rightarrow> ([FallbackSpeak text], Inr ())
      | Some e \<Rightarrow> ([FallbackSpeak text], Inl e))"

definition speak :: "turn_env \<Rightarrow> string \<Rightarrow> event list \<times> (exn + unit)" where
  "speak env text =
     (case eleven env of
        None \<Rightarrow> ([Speak text, Print ''Speaking with ElevenLabs...''], Inr ())
      | Some (Exception c m) \<Rightarrow>
          (let (tr, r) = fallback_speak env text
           in ([Speak text, Print ''Speaking with ElevenLabs...'',
                Print (''ElevenLabs error: '' @ m),
                Print ''-> Using fallback pyttsx3 TTS.''] @ tr, r))
      | Some e \<Rightarrow> ([Speak text, Print ''Speaking with ElevenLabs...''], Inl e))"

subsection \<open>One turn: the body of the loop of VoiceAI.run\<close>

text \<open>
  \<open>run_turn\<close> is the body of \<^verbatim>\<open>while True\<close> in \<^verbatim>\<open>VoiceAI.run\<close>, the \<^verbatim>\<open>runTurn\<close> of
  the specification. Its status says how the body is left: \<open>Idle\<close> by the
  \<^verbatim>\<open>continue\<close> after an empty capture, \<open>Exit\<close> by the \<^verbatim>\<open>break\<close>, \<open>Continue\<close> by
  reaching the end of the body. Where \<open>the user_text\<close> is read, \<open>user_text\<close> is not
  \<^verbatim>\<open>None\<close>: \<open>py_not\<close> has just excluded it.
\<close>

datatype status = Idle | Exit | Continue

definition exit_phrases :: "string list" where
  "exit_phrases = [''quit'', ''exit'', ''stop'', ''goodbye'']"

definition farewell :: string where
  "farewell = ''Goodbye! It was nice talking to you.''"

definition run_turn :: "turn_env \<Rightarrow> event list \<times> (exn + status)" where
  "run_turn env =
     (case listen env of
        (tr1, Inl e) \<Rightarrow> (tr1, Inl e)
      | (tr1, Inr user_text) \<Rightarrow>
          if py_not user_text then (tr1, Inr Idle)
          else
            (let t = the user_text
             in if py_strip (py_lower t) \<in> set exit_phrases
                then
                  (case speak env farewell of
                     (tr2, Inl e) \<Rightarrow> (tr1 @ [Print farewell] @ tr2, Inl e)
                   | (tr2, Inr u) \<Rightarrow>
                       (tr1 @ [Print farewell] @ tr2 @ [Print ''Session ended.''], Inr Exit))
                else
                  (case get_ai_response env t of
                     (tr2, Inl e) \<Rightarrow> (tr1 @ tr2, Inl e)
                   | (tr2, Inr ai_response) \<Rightarrow>
                       (case speak env ai_response of
                          (tr3, Inl e) \<Rightarrow> (tr1 @ tr2 @ tr3, Inl e)
                        | (tr3, Inr u) \<Rightarrow> (tr1 @ tr2 @ tr3, Inr Continue)))))"

subsection \<open>The loop\<close>

text \<open>
  The loop runs until an exit phrase or an exception. The model runs it on a script, the
  list of what the collaborators do turn by turn. \<open>Pending\<close> says that the script ended
  with the loop still running; \<open>Broke\<close> that the loop was left by \<^verbatim>\<open>break\<close>, so that
  \<^verbatim>\<open>run\<close> returns; \<open>Raised e\<close> that \<open>e\<close> left the loop and \<^verbatim>\<open>run\<close>.
\<close>

datatype outcome = Broke | Raised exn | Pending

fun run_loop :: "turn_env list \<Rightarrow> event list \<times> outcome" where
  "run_loop [] = ([], Pending)"
| "run_loop (env # envs) =
     (case run_turn env of
        (tr, Inl e) \<Rightarrow> (tr, Raised e)
      | (tr, Inr Exit) \<Rightarrow> (tr, Broke)
      | (tr, Inr st) \<Rightarrow> (let (tr', r) = run_loop envs in (tr @ tr', r)))"

definition banner :: "event list" where
  "banner =
     [Print (CHR 0x0A # replicate 50 CHR ''=''),
      Print ''Voice AI Agent Activated'',
      Print ''Say something to start chatting.'',
      Print ''Say 'quit', 'exit', or 'goodbye' to stop.'']"

definition run :: "turn_env list \<Rightarrow> event list \<times> outcome" where
  "run script = (let (tr, r) = run_loop script in (banner @ tr, r))"

subsection \<open>Start-up\<close>

text \<open>
  What the constructor meets: \<open>configure\<close> is \<^verbatim>\<open>genai.configure\<close> and the
  \<^verbatim>\<open>ElevenLabs\<close> client (inside the \<^verbatim>\<open>try\<close>), \<open>devices\<close> the recogniser, the
  microphone, the fallback engine, the model and its chat session, \<open>calibrate\<close> the
  ambient-noise calibration.
\<close>

record init_env =
  configure :: "exn option"
  devices :: "exn option"
  calibrate :: "exn option"

definition init :: "init_env \<Rightarrow> event list \<times> (exn + unit)" where
  "init ienv =
     (case configure ienv of
        Some (Exception c m) \<Rightarrow>
          ([Print (''Error configuring APIs: '' @ m)], Inl (SystemExit 1))
      | Some e \<Rightarrow> ([], Inl e)
      | None \<Rightarrow>
          (case devices ienv of
             Some e \<Rightarrow> ([], Inl e)
           | None \<Rightarrow>
               (case calibrate ienv of
                  Some e \<Rightarrow> ([Print ''Calibrating microphone, please wait...''], Inl e)
                | None \<Rightarrow>
                    ([Print ''Calibrating microphone, please wait...'',
                      Print ''Microphone calibrated. Ready to chat!''], Inr ()))))"

text \<open>
  The process: \<open>ExitCode n\<close> when it ends with status \<open>n\<close>, \<open>Running\<close> when the
  script ended with the loop still running. The three arguments are the values of
  \<^verbatim>\<open>os.getenv\<close> after \<^verbatim>\<open>load_dotenv()\<close>.
\<close>

datatype process = ExitCode nat | Running

definition missing_keys_message :: "event list" where
  "missing_keys_message =
     [Print ''Missing API keys or voice ID. Please check your .env file:'',
      Print ''GEMINI_API_KEY=...'',
      Print ''ELEVENLABS_API_KEY=...'',
      Print ''ELEVENLABS_VOICE_ID=...'']"

definition main ::
  "string option \<Rightarrow> string option \<Rightarrow> string option \<Rightarrow> init_env \<Rightarrow> turn_env list
     \<Rightarrow> event list \<times> process" where
  "main gemini_key elevenlabs_key voice_id ienv script =
     (if py_not gemini_key \<or> py_not elevenlabs_key \<or> py_not voice_id
      then (missing_keys_message, ExitCode 1)
      else
        (let (tr, r) =
               (case init ienv of
                  (tr1, Inl e) \<Rightarrow> (tr1, Raised e)
                | (tr1, Inr u) \<Rightarrow> (let (tr2, r2) = run script in (tr1 @ tr2, r2)))
         in case r of
              Raised KeyboardInterrupt \<Rightarrow>
                (tr @ [Print (CHR 0x0A # ''Session interrupted by user.'')], ExitCode 0)
            | Raised (Exception c m) \<Rightarrow>
                (tr @ [Print (''Unexpected error: '' @ m)], ExitCode 0)
            | Raised (SystemExit n) \<Rightarrow> (tr, ExitCode n)
            | Broke \<Rightarrow> (tr, ExitCode 0)
            | Pending \<Rightarrow> (tr, Running)))"

subsection \<open>Letter case, as the specification words it\<close>

text \<open>
  The specification speaks of an utterance that equals an exit phrase up to letter case.
  Two characters are the same letter when they are equal or are the capital and the small
  form of one ASCII letter (the small letters are the code points 97 to 122, each 32 above
  its capital). This definition follows the specification's words, not the source.
\<close>

definition is_ascii_lower :: "char \<Rightarrow> bool" where
  "is_ascii_lower c = (97 \<le> (of_char c :: nat) \<and> (of_char c :: nat) \<le> 122)"

definition same_letter :: "char \<Rightarrow> char \<Rightarrow> bool" where
  "same_letter c d =
     (c = d \<or> (is_ascii_lower d \<and> (of_char c :: nat) + 32 = of_char d)
            \<or> (is_ascii_lower c \<and> (of_char d :: nat) + 32 = of_char c))"

subsection \<open>Turns in which every error is handled\<close>

text \<open>
  \<open>is_Exception e\<close>: \<open>e\<close> is of class \<^verbatim>\<open>Exception\<close>, so \<^verbatim>\<open>except Exception\<close>
  catches it. A turn is \<open>recoverable\<close> when every exception that capture, the chat model
  or the primary synthesis raises in it is of that class and, if the primary synthesis
  raises, the fallback engine returns.
\<close>

fun is_Exception :: "exn \<Rightarrow> bool" where
  "is_Exception (Exception c m) = True"
| "is_Exception e = False"

definition recoverable :: "turn_env \<Rightarrow> bool" where
  "recoverable env =
     ((case capture env of Inl e \<Rightarrow> is_Exception e | Inr t \<Rightarrow> True)
      \<and> (case gemini env of Inl e \<Rightarrow> is_Exception e | Inr t \<Rightarrow> True)
      \<and> (case eleven env of None \<Rightarrow> True | Some e \<Rightarrow> is_Exception e \<and> pyttsx env = None))"

section \<open>Properties\<close>

subsection \<open>Lowering and stripping\<close>

lemma py_lower_char_space: "py_isspace c \<Longrightarrow> py_lower_char c = c"
  by (auto simp add: py_lower_char_def py_isspace_def Let_def)

lemma py_lower_spaces: "list_all py_isspace ws \<Longrightarrow> py_lower ws = ws"
  by (induction ws) (simp_all add: py_lower_def py_lower_char_space)

lemma py_lower_append: "py_lower (xs @ ys) = py_lower xs @ py_lower ys"
  by (simp add: py_lower_def)

lemma py_strip_surround:
  assumes "list_all py_isspace ws1" "list_all py_isspace ws2"
    and "p \<noteq> []" "\<not> py_isspace (hd p)" "\<not> py_isspace (last p)"
  shows "py_strip (ws1 @ p @ ws2) = p"
proof -
  have a: "dropWhile py_isspace (ws1 @ p @ ws2) = p @ ws2"
    using assms(1,3,4) by (cases p) (simp_all add: dropWhile_append2 list_all_iff)
  have "dropWhile py_isspace (rev ws2 @ rev p) = dropWhile py_isspace (rev p)"
    using assms(2) by (intro dropWhile_append2) (simp add: list_all_iff)
  moreover have "dropWhile py_isspace (rev p) = rev p"
    using assms(3,5) by (cases p rule: rev_cases) simp_all
  ultimately have b: "dropWhile py_isspace (rev ws2 @ rev p) = rev p"
    by simp
  show ?thesis by (simp add: py_strip_def a b)
qed

lemma py_strip_spaces:
  assumes "list_all py_isspace ws"
  shows "py_strip ws = []"
proof -
  have none_left: "dropWhile py_isspace ws = []"
    using assms by (induction ws) simp_all
  show ?thesis unfolding py_strip_def none_left by simp
qed

lemma exit_phrase_shape:
  "p \<in> set exit_phrases \<Longrightarrow> p \<noteq> [] \<and> \<not> py_isspace (hd p) \<and> \<not> py_isspace (last p)"
  by (auto simp add: exit_phrases_def py_isspace_def)

lemma exit_phrase_lower: "p \<in> set exit_phrases \<Longrightarrow> list_all is_ascii_lower p"
  by (auto simp add: exit_phrases_def is_ascii_lower_def)

lemma py_lower_char_same_letter:
  assumes "same_letter c d" "is_ascii_lower d"
  shows "py_lower_char c = d"
proof -
  from assms consider "c = d" | "(of_char c :: nat) + 32 = of_char d"
    by (auto simp add: same_letter_def is_ascii_lower_def)
  then show ?thesis
  proof cases
    case 1
    with assms(2) show ?thesis
      by (simp add: py_lower_char_def is_ascii_lower_def Let_def)
  next
    case 2
    have "char_of ((of_char c :: nat) + 32) = d"
      unfolding 2 by simp
    with 2 assms(2) show ?thesis
      by (auto simp add: py_lower_char_def is_ascii_lower_def Let_def)
  qed
qed

lemma py_lower_same_letter:
  "list_all2 same_letter v p \<Longrightarrow> list_all is_ascii_lower p \<Longrightarrow> py_lower v = p"
  by (induction v p rule: list_all2_induct)
     (simp_all add: py_lower_def py_lower_char_same_letter)

lemma normalize_variant:
  assumes "list_all py_isspace ws1" "list_all py_isspace ws2"
    and "p \<in> set exit_phrases" "list_all2 same_letter v p"
  shows "py_strip (py_lower (ws1 @ v @ ws2)) = p"
proof -
  have "py_lower (ws1 @ v @ ws2) = ws1 @ p @ ws2"
    using assms
    by (simp add: py_lower_append py_lower_spaces py_lower_same_letter exit_phrase_lower)
  then show ?thesis
    using assms exit_phrase_shape [OF assms(3)] by (simp add: py_strip_surround)
qed

subsection \<open>The calls of each method\<close>

lemma listen_heard:
  "capture env = Inr t \<Longrightarrow>
   listen env =
     ([Listen, Print (CHR 0x0A # ''Listening...''), Print (''You said: '' @ t)], Inr (Some t))"
  by (simp add: listen_def)

lemma speak_calls:
  "filter is_synthesis_call (fst (speak env t)) = [Speak t]"
  "filter is_dialogue_call (fst (speak env t)) = []"
  "filter is_call (fst (speak env t)) = [Speak t]"
  by (auto simp add: speak_def fallback_speak_def split: option.splits exn.splits prod.splits)

lemma get_ai_response_calls:
  "filter is_synthesis_call (fst (get_ai_response env t)) = []"
  "filter is_dialogue_call (fst (get_ai_response env t)) = [GetAIResponse t]"
  "filter is_call (fst (get_ai_response env t)) = [GetAIResponse t]"
  "filter is_fallback_call (fst (get_ai_response env t)) = []"
  by (auto simp add: get_ai_response_def Let_def split: sum.splits exn.splits)

subsection \<open>The two branches of a turn with a captured utterance\<close>

lemma run_turn_exit:
  assumes "capture env = Inr t" "t \<noteq> []" "py_strip (py_lower t) \<in> set exit_phrases"
  shows "run_turn env =
     (case speak env farewell of
        (tr2, Inl e) \<Rightarrow>
          ([Listen, Print (CHR 0x0A # ''Listening...''), Print (''You said: '' @ t),
            Print farewell] @ tr2, Inl e)
      | (tr2, Inr u) \<Rightarrow>
          ([Listen, Print (CHR 0x0A # ''Listening...''), Print (''You said: '' @ t),
            Print farewell] @ tr2 @ [Print ''Session ended.''], Inr Exit))"
  using assms by (simp add: run_turn_def listen_heard split: prod.splits sum.splits)

lemma run_turn_forward:
  assumes "capture env = Inr t" "t \<noteq> []" "py_strip (py_lower t) \<notin> set exit_phrases"
  shows "run_turn env =
     (case get_ai_response env t of
        (tr2, Inl e) \<Rightarrow>
          ([Listen, Print (CHR 0x0A # ''Listening...''), Print (''You said: '' @ t)] @ tr2,
           Inl e)
      | (tr2, Inr ai_response) \<Rightarrow>
          (case speak env ai_response of
             (tr3, Inl e) \<Rightarrow>
               ([Listen, Print (CHR 0x0A # ''Listening...''), Print (''You said: '' @ t)]
                  @ tr2 @ tr3, Inl e)
           | (tr3, Inr u) \<Rightarrow>
               ([Listen, Print (CHR 0x0A # ''Listening...''), Print (''You said: '' @ t)]
                  @ tr2 @ tr3, Inr Continue)))"
  using assms by (simp add: run_turn_def listen_heard split: prod.splits sum.splits)

subsection \<open>Exit phrases\<close>

text \<open>
  C1, as stated, fails where the one call of \<^verbatim>\<open>speak\<close> raises. The utterance
  " QuIT" followed by a newline normalises to the exit phrase "quit". When the playback is
  interrupted (\<open>KeyboardInterrupt\<close>, which \<^verbatim>\<open>except Exception\<close> lets through to
  \<^verbatim>\<open>main\<close>), and when the primary synthesis and the fallback engine both raise, the
  turn raises instead of returning \<open>Exit\<close>.
\<close>

theorem exit_phrase_turn_counterexample:
  "py_strip (py_lower ('' QuIT'' @ [CHR 0x0A])) = ''quit''
   \<and> snd (run_turn \<lparr>capture = Inr ('' QuIT'' @ [CHR 0x0A]), gemini = Inr ''hi'',
                     eleven = Some KeyboardInterrupt, pyttsx = None\<rparr>) = Inl KeyboardInterrupt
   \<and> snd (run_turn \<lparr>capture = Inr ('' QuIT'' @ [CHR 0x0A]), gemini = Inr ''hi'',
                     eleven = Some (Exception OtherException ''quota''),
                     pyttsx = Some (Exception OtherException ''no driver'')\<rparr>) =
       Inl (Exception OtherException ''no driver'')"
  by code_simp

text \<open>
  C1, amended. Let the captured utterance be an exit phrase \<open>p\<close> up to letter case (\<open>v\<close>, letter
  by letter the same as \<open>p\<close>) and up to leading and trailing whitespace (\<open>ws1\<close>,
  \<open>ws2\<close>). Then the turn calls \<^verbatim>\<open>speak\<close> exactly once, with the fixed farewell
  "Goodbye! It was nice talking to you.", it never calls \<^verbatim>\<open>get_ai_response\<close>, and it
  returns \<open>Exit\<close> when that one call of \<^verbatim>\<open>speak\<close> returns.
\<close>

theorem exit_phrase_turn:
  assumes "capture env = Inr (ws1 @ v @ ws2)"
    and "list_all py_isspace ws1" and "list_all py_isspace ws2"
    and "p \<in> set exit_phrases" and "list_all2 same_letter v p"
  shows "filter is_synthesis_call (fst (run_turn env)) =
           [Speak ''Goodbye! It was nice talking to you.'']
       \<and> filter is_dialogue_call (fst (run_turn env)) = []
       \<and> (snd (speak env farewell) = Inr () \<longrightarrow> snd (run_turn env) = Inr Exit)"
proof -
  let ?t = "ws1 @ v @ ws2"
  have norm: "py_strip (py_lower ?t) = p"
    using assms(2-5) by (rule normalize_variant)
  have "length v = length p"
    using assms(5) by (rule list_all2_lengthD)
  with exit_phrase_shape [OF assms(4)] have nonempty: "?t \<noteq> []"
    by auto
  have rt: "run_turn env =
     (case speak env farewell of
        (tr2, Inl e) \<Rightarrow>
          ([Listen, Print (CHR 0x0A # ''Listening...''), Print (''You said: '' @ ?t),
            Print farewell] @ tr2, Inl e)
      | (tr2, Inr u) \<Rightarrow>
          ([Listen, Print (CHR 0x0A # ''Listening...''), Print (''You said: '' @ ?t),
            Print farewell] @ tr2 @ [Print ''Session ended.''], Inr Exit))"
    using assms(1) nonempty by (rule run_turn_exit) (simp add: norm assms(4))
  obtain tr2 r where sp: "speak env farewell = (tr2, r)"
    by (cases "speak env farewell")
  have calls: "filter is_synthesis_call tr2 = [Speak farewell]"
              "filter is_dialogue_call tr2 = []"
    using speak_calls(1,2) [of env farewell] by (simp_all add: sp)
  have "filter is_synthesis_call (fst (run_turn env)) = [Speak farewell]
       \<and> filter is_dialogue_call (fst (run_turn env)) = []
       \<and> (snd (speak env farewell) = Inr () \<longrightarrow> snd (run_turn env) = Inr Exit)"
    using calls by (cases r) (simp_all add: rt sp)
  then show ?thesis
    by (simp add: farewell_def)
qed

theorem exit_phrase_turn_witness:
  "list_all py_isspace '' '' \<and> list_all py_isspace [CHR 0x0A]
   \<and> ''quit'' \<in> set exit_phrases \<and> list_all2 same_letter ''QuIT'' ''quit''
   \<and> filter is_synthesis_call
        (fst (run_turn \<lparr>capture = Inr ('' '' @ ''QuIT'' @ [CHR 0x0A]), gemini = Inr ''hi'',
                        eleven = None, pyttsx = None\<rparr>)) =
        [Speak ''Goodbye! It was nice talking to you.'']
   \<and> filter is_dialogue_call
        (fst (run_turn \<lparr>capture = Inr ('' '' @ ''QuIT'' @ [CHR 0x0A]), gemini = Inr ''hi'',
                        eleven = None, pyttsx = None\<rparr>)) = []
   \<and> snd (run_turn \<lparr>capture = Inr ('' '' @ ''QuIT'' @ [CHR 0x0A]), gemini = Inr ''hi'',
                     eleven = None, pyttsx = None\<rparr>) = Inr Exit"
proof -
  let ?env = "\<lparr>capture = Inr ('' '' @ ''QuIT'' @ [CHR 0x0A]), gemini = Inr ''hi'',
               eleven = None, pyttsx = None\<rparr>"
  have h1: "capture ?env = Inr ('' '' @ ''QuIT'' @ [CHR 0x0A])" by simp
  have h2: "list_all py_isspace '' ''" by (simp add: py_isspace_def)
  have h3: "list_all py_isspace [CHR 0x0A]" by (simp add: py_isspace_def)
  have h4: "''quit'' \<in> set exit_phrases" by (simp add: exit_phrases_def)
  have h5: "list_all2 same_letter ''QuIT'' ''quit''"
    by (simp add: same_letter_def is_ascii_lower_def)
  have h6: "snd (speak ?env farewell) = Inr ()" by (simp add: speak_def)
  from exit_phrase_turn [OF h1 h2 h3 h4 h5] h2 h3 h4 h5 h6 show ?thesis by blast
qed

subsection \<open>Missing credentials\<close>

text \<open>
  C3. If one of the three values \<^verbatim>\<open>GEMINI_API_KEY\<close>, \<^verbatim>\<open>ELEVENLABS_API_KEY\<close>,
  \<^verbatim>\<open>ELEVENLABS_VOICE_ID\<close> is absent (or empty), the process prints the message that
  names the three keys, among them the missing ones, and ends with status 1, whatever the
  constructor and the collaborators would have done: the trace has no \<open>Listen\<close>, so no
  turn of the loop has started.
\<close>

theorem missing_credential_exits:
  assumes "py_not gemini_key \<or> py_not elevenlabs_key \<or> py_not voice_id"
  shows "main gemini_key elevenlabs_key voice_id ienv script =
           ([Print ''Missing API keys or voice ID. Please check your .env file:'',
             Print ''GEMINI_API_KEY=...'',
             Print ''ELEVENLABS_API_KEY=...'',
             Print ''ELEVENLABS_VOICE_ID=...''], ExitCode 1)
       \<and> Listen \<notin> set (fst (main gemini_key elevenlabs_key voice_id ienv script))"
  using assms by (simp add: main_def missing_keys_message_def)

theorem missing_credential_exits_witness:
  "py_not None
   \<and> main (Some ''g-key'') None (Some ''voice'')
        \<lparr>configure = None, devices = None, calibrate = None\<rparr>
        [\<lparr>capture = Inr ''hello'', gemini = Inr ''hi'', eleven = None, pyttsx = None\<rparr>] =
       ([Print ''Missing API keys or voice ID. Please check your .env file:'',
         Print ''GEMINI_API_KEY=...'',
         Print ''ELEVENLABS_API_KEY=...'',
         Print ''ELEVENLABS_VOICE_ID=...''], ExitCode 1)"
proof -
  have h: "py_not (Some ''g-key'') \<or> py_not None \<or> py_not (Some ''voice'')" by simp
  from missing_credential_exits [OF h] show ?thesis by simp
qed

subsection \<open>A failed capture\<close>

text \<open>
  C4. When capture raises an exception of class \<^verbatim>\<open>Exception\<close> (the timeout
  \<open>WaitTimeoutError\<close>, the unintelligible audio \<open>UnknownValueError\<close>, or any other),
  \<^verbatim>\<open>listen\<close> returns \<^verbatim>\<open>None\<close> instead of raising, and the turn returns \<open>Idle\<close>
  without a call of \<^verbatim>\<open>get_ai_response\<close>, of \<^verbatim>\<open>speak\<close> or of \<^verbatim>\<open>fallback_speak\<close>.
\<close>

theorem failed_capture_is_idle:
  assumes "capture env = Inl (Exception c m)"
  shows "snd (listen env) = Inr None
       \<and> snd (run_turn env) = Inr Idle
       \<and> filter is_dialogue_call (fst (run_turn env)) = []
       \<and> filter is_synthesis_call (fst (run_turn env)) = []
       \<and> filter is_fallback_call (fst (run_turn env)) = []"
  using assms by (cases c) (simp_all add: run_turn_def listen_def)

theorem failed_capture_is_idle_witness:
  "snd (listen \<lparr>capture = Inl (Exception WaitTimeoutError ''timed out''), gemini = Inr ''hi'',
                eleven = None, pyttsx = None\<rparr>) = Inr None
   \<and> snd (run_turn \<lparr>capture = Inl (Exception WaitTimeoutError ''timed out''),
                     gemini = Inr ''hi'', eleven = None, pyttsx = None\<rparr>) = Inr Idle
   \<and> filter is_dialogue_call
        (fst (run_turn \<lparr>capture = Inl (Exception WaitTimeoutError ''timed out''),
                        gemini = Inr ''hi'', eleven = None, pyttsx = None\<rparr>)) = []
   \<and> filter is_synthesis_call
        (fst (run_turn \<lparr>capture = Inl (Exception WaitTimeoutError ''timed out''),
                        gemini = Inr ''hi'', eleven = None, pyttsx = None\<rparr>)) = []"
proof -
  let ?env = "\<lparr>capture = Inl (Exception WaitTimeoutError ''timed out''), gemini = Inr ''hi'',
               eleven = None, pyttsx = None\<rparr>"
  have h: "capture ?env = Inl (Exception WaitTimeoutError ''timed out'')" by simp
  from failed_capture_is_idle [OF h] show ?thesis by blast
qed

subsection \<open>A failed dialogue call\<close>

text \<open>
  C5, as stated, fails where \<^verbatim>\<open>speak\<close> raises. With a chat model that raises,
  \<^verbatim>\<open>get_ai_response\<close> returns the apology, but when the playback of the apology is
  interrupted (\<open>KeyboardInterrupt\<close>), and when the primary synthesis and the fallback
  engine both raise, the turn raises instead of returning \<open>Continue\<close>.
\<close>

theorem dialogue_failure_apology_counterexample:
  "snd (get_ai_response \<lparr>capture = Inr ''hello'',
                          gemini = Inl (Exception OtherException ''quota''),
                          eleven = Some KeyboardInterrupt, pyttsx = None\<rparr> ''hello'') =
     Inr ''trouble responding.''
   \<and> snd (run_turn \<lparr>capture = Inr ''hello'', gemini = Inl (Exception OtherException ''quota''),
                     eleven = Some KeyboardInterrupt, pyttsx = None\<rparr>) = Inl KeyboardInterrupt
   \<and> snd (run_turn \<lparr>capture = Inr ''hello'', gemini = Inl (Exception OtherException ''quota''),
                     eleven = Some (Exception OtherException ''quota''),
                     pyttsx = Some (Exception OtherException ''no driver'')\<rparr>) =
       Inl (Exception OtherException ''no driver'')"
  by code_simp

text \<open>
  C5, amended. In a turn that reaches the dialogue call (a captured, non-empty utterance that is
  not an exit phrase), when the chat model raises an exception of class \<^verbatim>\<open>Exception\<close>,
  \<^verbatim>\<open>get_ai_response\<close> returns the fixed apology "trouble responding." instead of
  raising, that text is the one passed to \<^verbatim>\<open>speak\<close>, and the turn returns \<open>Continue\<close>
  when \<^verbatim>\<open>speak\<close> returns. An exception that leaves the turn is one that \<^verbatim>\<open>speak\<close>
  raised, never the one of the dialogue call.
\<close>

theorem dialogue_failure_apology:
  assumes "capture env = Inr t" and "t \<noteq> []"
    and "py_strip (py_lower t) \<notin> set exit_phrases"
    and "gemini env = Inl (Exception c m)"
  shows "snd (get_ai_response env t) = Inr ''trouble responding.''
       \<and> filter is_dialogue_call (fst (run_turn env)) = [GetAIResponse t]
       \<and> filter is_synthesis_call (fst (run_turn env)) = [Speak ''trouble responding.'']
       \<and> (snd (speak env ''trouble responding.'') = Inr ()
            \<longrightarrow> snd (run_turn env) = Inr Continue)
       \<and> (\<forall>e. snd (run_turn env) = Inl e
            \<longrightarrow> snd (speak env ''trouble responding.'') = Inl e)"
proof -
  have g: "get_ai_response env t =
             ([GetAIResponse t, Print ''Thinking...'', Print (''Gemini API error: '' @ m)],
              Inr ''trouble responding.'')"
    using assms(4) by (simp add: get_ai_response_def)
  obtain tr3 r where sp: "speak env ''trouble responding.'' = (tr3, r)"
    by (cases "speak env ''trouble responding.''")
  have calls: "filter is_synthesis_call tr3 = [Speak ''trouble responding.'']"
              "filter is_dialogue_call tr3 = []"
    using speak_calls(1,2) [of env "''trouble responding.''"] by (simp_all add: sp)
  show ?thesis
    using calls by (cases r) (simp_all add: run_turn_forward [OF assms(1-3)] g sp)
qed

theorem dialogue_failure_apology_witness:
  "''hello'' \<noteq> [] \<and> py_strip (py_lower ''hello'') \<notin> set exit_phrases
   \<and> snd (get_ai_response
             \<lparr>capture = Inr ''hello'', gemini = Inl (Exception OtherException ''quota''),
              eleven = None, pyttsx = None\<rparr> ''hello'') = Inr ''trouble responding.''
   \<and> filter is_synthesis_call
        (fst (run_turn \<lparr>capture = Inr ''hello'',
                        gemini = Inl (Exception OtherException ''quota''),
                        eleven = None, pyttsx = None\<rparr>)) = [Speak ''trouble responding.'']
   \<and> snd (run_turn \<lparr>capture = Inr ''hello'',
                     gemini = Inl (Exception OtherException ''quota''),
                     eleven = None, pyttsx = None\<rparr>) = Inr Continue"
proof -
  let ?env = "\<lparr>capture = Inr ''hello'', gemini = Inl (Exception OtherException ''quota''),
               eleven = None, pyttsx = None\<rparr>"
  have h1: "capture ?env = Inr ''hello''" by simp
  have h2: "''hello'' \<noteq> []" by simp
  have h3: "py_strip (py_lower ''hello'') \<notin> set exit_phrases" by code_simp
  have h4: "gemini ?env = Inl (Exception OtherException ''quota'')" by simp
  have h5: "snd (speak ?env ''trouble responding.'') = Inr ()" by (simp add: speak_def)
  from dialogue_failure_apology [OF h1 h2 h3 h4] h2 h3 h5 show ?thesis by blast
qed

subsection \<open>The fallback synthesis\<close>

lemma speak_fallback:
  assumes "eleven env = Some (Exception c m)"
  shows "speak env t =
           ([Speak t, Print ''Speaking with ElevenLabs...'', Print (''ElevenLabs error: '' @ m),
             Print ''-> Using fallback pyttsx3 TTS.'', FallbackSpeak t],
            case pyttsx env of None \<Rightarrow> Inr () | Some e \<Rightarrow> Inl e)"
  using assms by (simp add: speak_def fallback_speak_def split: option.splits)

lemma run_turn_speak_cases:
  assumes "Speak t \<in> set (fst (run_turn env))"
  obtains (exit) u where "capture env = Inr u" "u \<noteq> []"
      "py_strip (py_lower u) \<in> set exit_phrases" "t = farewell"
  | (forward) u tr2 where "capture env = Inr u" "u \<noteq> []"
      "py_strip (py_lower u) \<notin> set exit_phrases" "get_ai_response env u = (tr2, Inr t)"
proof (cases "capture env")
  case (Inl e)
  with assms have False
    by (auto simp add: run_turn_def listen_def split: exn.splits exc_class.splits)
  then show ?thesis ..
next
  case (Inr u)
  show ?thesis
  proof (cases "u = []")
    case True
    with Inr assms have False by (simp add: run_turn_def listen_heard)
    then show ?thesis ..
  next
    case False
    show ?thesis
    proof (cases "py_strip (py_lower u) \<in> set exit_phrases")
      case True
      obtain tr2 r where sp: "speak env farewell = (tr2, r)"
        by (cases "speak env farewell")
      have "filter is_synthesis_call (fst (run_turn env)) = [Speak farewell]"
        using speak_calls(1) [of env farewell]
        by (cases r) (simp_all add: run_turn_exit [OF Inr False True] sp)
      moreover have "Speak t \<in> set (filter is_synthesis_call (fst (run_turn env)))"
        using assms by simp
      ultimately have "t = farewell" by simp
      with Inr False True show ?thesis by (rule exit)
    next
      case nx: False
      obtain tr2 r where g: "get_ai_response env u = (tr2, r)"
        by (cases "get_ai_response env u")
      have nosp: "filter is_synthesis_call tr2 = []"
        using get_ai_response_calls(1) [of env u] by (simp add: g)
      show ?thesis
      proof (cases r)
        case (Inl e)
        have "filter is_synthesis_call (fst (run_turn env)) = []"
          using nosp by (simp add: run_turn_forward [OF Inr False nx] g Inl)
        moreover have "Speak t \<in> set (filter is_synthesis_call (fst (run_turn env)))"
          using assms by simp
        ultimately have False by simp
        then show ?thesis ..
      next
        case (Inr a)
        obtain tr3 r3 where sp: "speak env a = (tr3, r3)"
          by (cases "speak env a")
        have "filter is_synthesis_call (fst (run_turn env)) = [Speak a]"
          using speak_calls(1) [of env a] nosp
          by (cases r3) (simp_all add: run_turn_forward [OF \<open>capture env = Inr u\<close> False nx] g Inr sp)
        moreover have "Speak t \<in> set (filter is_synthesis_call (fst (run_turn env)))"
          using assms by simp
        ultimately have "t = a" by simp
        with g Inr have "get_ai_response env u = (tr2, Inr t)" by simp
        with \<open>capture env = Inr u\<close> False nx show ?thesis by (rule forward)
      qed
    qed
  qed
qed

text \<open>
  C6. In a turn that calls \<^verbatim>\<open>speak\<close> with a text \<open>t\<close>, when the primary synthesis
  raises an exception of class \<^verbatim>\<open>Exception\<close> and the fallback engine returns,
  \<^verbatim>\<open>fallback_speak\<close> is called exactly once, with the same text \<open>t\<close>, and the turn
  returns a status: no exception leaves it.
\<close>

theorem fallback_once:
  assumes "Speak t \<in> set (fst (run_turn env))"
    and "eleven env = Some (Exception c m)" and "pyttsx env = None"
  shows "filter is_fallback_call (fst (run_turn env)) = [FallbackSpeak t]
       \<and> (\<exists>st. snd (run_turn env) = Inr st)"
  using assms(1)
proof (cases rule: run_turn_speak_cases)
  case (exit u)
  have "speak env farewell =
          ([Speak farewell, Print ''Speaking with ElevenLabs...'',
            Print (''ElevenLabs error: '' @ m),
            Print ''-> Using fallback pyttsx3 TTS.'', FallbackSpeak farewell], Inr ())"
    using speak_fallback [OF assms(2)] assms(3) by simp
  then show ?thesis
    by (simp add: run_turn_exit [OF exit(1-3)] exit(4))
next
  case (forward u tr2)
  have sp: "speak env t =
          ([Speak t, Print ''Speaking with ElevenLabs...'',
            Print (''ElevenLabs error: '' @ m),
            Print ''-> Using fallback pyttsx3 TTS.'', FallbackSpeak t], Inr ())"
    using speak_fallback [OF assms(2)] assms(3) by simp
  have "filter is_fallback_call tr2 = []"
    using get_ai_response_calls(4) [of env u] by (simp add: forward(4))
  then show ?thesis
    by (simp add: run_turn_forward [OF forward(1-3)] forward(4) sp)
qed

theorem fallback_once_witness:
  "Speak ''hi'' \<in> set (fst (run_turn \<lparr>capture = Inr ''hello'', gemini = Inr ''hi'',
       eleven = Some (Exception OtherException ''quota''), pyttsx = None\<rparr>))
   \<and> filter is_fallback_call
        (fst (run_turn \<lparr>capture = Inr ''hello'', gemini = Inr ''hi'',
           eleven = Some (Exception OtherException ''quota''), pyttsx = None\<rparr>)) =
        [FallbackSpeak ''hi'']
   \<and> snd (run_turn \<lparr>capture = Inr ''hello'', gemini = Inr ''hi'',
           eleven = Some (Exception OtherException ''quota''), pyttsx = None\<rparr>) = Inr Continue"
proof -
  let ?env = "\<lparr>capture = Inr ''hello'', gemini = Inr ''hi'',
           eleven = Some (Exception OtherException ''quota''), pyttsx = None\<rparr>"
  have n: "py_strip (py_lower ''hello'') \<notin> set exit_phrases" by code_simp
  have s: "py_strip ''hi'' = ''hi''" by code_simp
  have rt: "run_turn ?env =
    ([Listen, Print (CHR 0x0A # ''Listening...''), Print ''You said: hello'',
      GetAIResponse ''hello'', Print ''Thinking...'', Print ''AI says: hi'',
      Speak ''hi'', Print ''Speaking with ElevenLabs...'', Print ''ElevenLabs error: quota'',
      Print ''-> Using fallback pyttsx3 TTS.'', FallbackSpeak ''hi''], Inr Continue)"
    by (simp add: run_turn_def listen_def get_ai_response_def speak_def fallback_speak_def
          Let_def n s)
  have h1: "Speak ''hi'' \<in> set (fst (run_turn ?env))" by (simp add: rt)
  have h2: "eleven ?env = Some (Exception OtherException ''quota'')" by simp
  have h3: "pyttsx ?env = None" by simp
  from fallback_once [OF h1 h2 h3] h1 show ?thesis by (simp add: rt)
qed

subsection \<open>An ordinary turn\<close>

lemma run_turn_forward_reply:
  assumes "capture env = Inr t" and "t \<noteq> []"
    and "py_strip (py_lower t) \<notin> set exit_phrases"
    and "get_ai_response env t = (tr2, Inr reply)"
  shows "run_turn env =
           ([Listen, Print (CHR 0x0A # ''Listening...''), Print (''You said: '' @ t)]
              @ tr2 @ fst (speak env reply),
            case snd (speak env reply) of Inl e \<Rightarrow> Inl e | Inr u \<Rightarrow> Inr Continue)"
  by (simp add: run_turn_forward [OF assms(1-3)] assms(4) split: prod.splits sum.splits)

lemma forward_summary:
  assumes "capture env = Inr t" and "t \<noteq> []"
    and "py_strip (py_lower t) \<notin> set exit_phrases"
  shows "filter is_dialogue_call (fst (run_turn env)) = [GetAIResponse t]"
    and "snd (run_turn env) \<noteq> Inr Exit"
    and "snd (run_turn env) \<noteq> Inr Idle"
    and "snd (get_ai_response env t) = Inr reply \<Longrightarrow>
           filter is_call (fst (run_turn env)) = [Listen, GetAIResponse t, Speak reply]"
    and "snd (get_ai_response env t) = Inr reply \<Longrightarrow> snd (speak env reply) = Inr () \<Longrightarrow>
           snd (run_turn env) = Inr Continue"
proof -
  obtain tr2 r where g: "get_ai_response env t = (tr2, r)"
    by (cases "get_ai_response env t")
  have c2: "filter is_dialogue_call tr2 = [GetAIResponse t]"
           "filter is_call tr2 = [GetAIResponse t]"
    using get_ai_response_calls(2,3) [of env t] by (simp_all add: g)
  show "filter is_dialogue_call (fst (run_turn env)) = [GetAIResponse t]"
  proof (cases r)
    case (Inl e)
    with g c2 show ?thesis by (simp add: run_turn_forward [OF assms])
  next
    case (Inr a)
    with g c2 show ?thesis
      by (simp add: run_turn_forward_reply [OF assms] speak_calls)
  qed
  show "snd (run_turn env) \<noteq> Inr Exit"
  proof (cases r)
    case (Inl e)
    with g show ?thesis by (simp add: run_turn_forward [OF assms])
  next
    case (Inr a)
    with g show ?thesis
      by (simp add: run_turn_forward_reply [OF assms] split: sum.splits)
  qed
  show "snd (run_turn env) \<noteq> Inr Idle"
  proof (cases r)
    case (Inl e)
    with g show ?thesis by (simp add: run_turn_forward [OF assms])
  next
    case (Inr a)
    with g show ?thesis
      by (simp add: run_turn_forward_reply [OF assms] split: sum.splits)
  qed
  show "filter is_call (fst (run_turn env)) = [Listen, GetAIResponse t, Speak reply]"
    if "snd (get_ai_response env t) = Inr reply"
  proof -
    from that g have "get_ai_response env t = (tr2, Inr reply)" by simp
    with c2 show ?thesis
      by (simp add: run_turn_forward_reply [OF assms] speak_calls)
  qed
  show "snd (run_turn env) = Inr Continue"
    if "snd (get_ai_response env t) = Inr reply" "snd (speak env reply) = Inr ()"
  proof -
    from that g have "get_ai_response env t = (tr2, Inr reply)" by simp
    with that(2) show ?thesis
      by (simp add: run_turn_forward_reply [OF assms])
  qed
qed

text \<open>
  C7, as stated, fails where a call of the turn raises. "Hello there" is not an exit
  phrase. When the dialogue call is interrupted (\<open>KeyboardInterrupt\<close>), there is no
  reply and \<^verbatim>\<open>speak\<close> is never called. When the chat model replies but the playback
  of the reply is interrupted, and when the primary synthesis and the fallback engine both
  raise, the turn raises instead of returning \<open>Continue\<close>.
\<close>

theorem ordinary_turn_counterexample:
  "py_strip (py_lower ''Hello there'') \<notin> set exit_phrases
   \<and> run_turn \<lparr>capture = Inr ''Hello there'', gemini = Inl KeyboardInterrupt,
                eleven = None, pyttsx = None\<rparr> =
       ([Listen, Print (CHR 0x0A # ''Listening...''), Print ''You said: Hello there'',
         GetAIResponse ''Hello there'', Print ''Thinking...''], Inl KeyboardInterrupt)
   \<and> snd (run_turn \<lparr>capture = Inr ''Hello there'', gemini = Inr ''Hi! How can I help?'',
                     eleven = Some KeyboardInterrupt, pyttsx = None\<rparr>) = Inl KeyboardInterrupt
   \<and> snd (run_turn \<lparr>capture = Inr ''Hello there'', gemini = Inr ''Hi! How can I help?'',
                     eleven = Some (Exception OtherException ''quota''),
                     pyttsx = Some (Exception OtherException ''no driver'')\<rparr>) =
       Inl (Exception OtherException ''no driver'')"
  by code_simp

text \<open>
  C7, amended. For a captured, non-empty utterance \<open>t\<close> that is not an exit phrase, with
  \<open>reply\<close> what \<^verbatim>\<open>get_ai_response\<close> returns for it, the calls of the turn are, in this
  order, \<^verbatim>\<open>listen()\<close>, \<^verbatim>\<open>get_ai_response(t)\<close> and \<^verbatim>\<open>speak(reply)\<close>, each exactly
  once, and the turn returns \<open>Continue\<close> when \<^verbatim>\<open>speak\<close> returns.
\<close>

theorem ordinary_turn:
  assumes "capture env = Inr t" and "t \<noteq> []"
    and "py_strip (py_lower t) \<notin> set exit_phrases"
    and "snd (get_ai_response env t) = Inr reply"
  shows "filter is_call (fst (run_turn env)) = [Listen, GetAIResponse t, Speak reply]
       \<and> (snd (speak env reply) = Inr () \<longrightarrow> snd (run_turn env) = Inr Continue)"
  using forward_summary(4,5) [OF assms] by blast

theorem ordinary_turn_witness:
  "''Hello there'' \<noteq> [] \<and> py_strip (py_lower ''Hello there'') \<notin> set exit_phrases
   \<and> snd (get_ai_response \<lparr>capture = Inr ''Hello there'', gemini = Inr ''Hi! How can I help?'',
                            eleven = None, pyttsx = None\<rparr> ''Hello there'') =
       Inr ''Hi! How can I help?''
   \<and> filter is_call
        (fst (run_turn \<lparr>capture = Inr ''Hello there'', gemini = Inr ''Hi! How can I help?'',
                        eleven = None, pyttsx = None\<rparr>)) =
       [Listen, GetAIResponse ''Hello there'', Speak ''Hi! How can I help?'']
   \<and> snd (run_turn \<lparr>capture = Inr ''Hello there'', gemini = Inr ''Hi! How can I help?'',
                     eleven = None, pyttsx = None\<rparr>) = Inr Continue"
proof -
  let ?env = "\<lparr>capture = Inr ''Hello there'', gemini = Inr ''Hi! How can I help?'',
               eleven = None, pyttsx = None\<rparr>"
  have h1: "capture ?env = Inr ''Hello there''" by simp
  have h2: "''Hello there'' \<noteq> []" by simp
  have h3: "py_strip (py_lower ''Hello there'') \<notin> set exit_phrases" by code_simp
  have s: "py_strip ''Hi! How can I help?'' = ''Hi! How can I help?''" by code_simp
  have h4: "snd (get_ai_response ?env ''Hello there'') = Inr ''Hi! How can I help?''"
    by (simp add: get_ai_response_def Let_def s)
  have h5: "snd (speak ?env ''Hi! How can I help?'') = Inr ()" by (simp add: speak_def)
  from ordinary_turn [OF h1 h2 h3 h4] h2 h3 h4 h5 show ?thesis by blast
qed

text \<open>
  C8, as stated, fails where a call of the turn raises. "please exit now" contains the
  exit phrase "exit" without being one. When the dialogue call is interrupted
  (\<open>KeyboardInterrupt\<close>), when the playback of the reply is interrupted, and when the
  primary synthesis and the fallback engine both raise, the turn raises instead of
  returning \<open>Continue\<close>.
\<close>

theorem embedded_exit_phrase_counterexample:
  "py_strip (py_lower ''please exit now'') = ''please '' @ ''exit'' @ '' now''
   \<and> py_strip (py_lower ''please exit now'') \<notin> set exit_phrases
   \<and> snd (run_turn \<lparr>capture = Inr ''please exit now'', gemini = Inl KeyboardInterrupt,
                     eleven = None, pyttsx = None\<rparr>) = Inl KeyboardInterrupt
   \<and> snd (run_turn \<lparr>capture = Inr ''please exit now'', gemini = Inr ''Sure.'',
                     eleven = Some KeyboardInterrupt, pyttsx = None\<rparr>) = Inl KeyboardInterrupt
   \<and> snd (run_turn \<lparr>capture = Inr ''please exit now'', gemini = Inr ''Sure.'',
                     eleven = Some (Exception OtherException ''quota''),
                     pyttsx = Some (Exception OtherException ''no driver'')\<rparr>) =
       Inl (Exception OtherException ''no driver'')"
  by code_simp

text \<open>
  C8, amended. Exit detection is equality of the whole normalised utterance with an exit phrase.
  An utterance whose normalised form contains an exit phrase \<open>p\<close> (it is \<open>a @ p @ b\<close>)
  without being one does not end the session: the turn does not return \<open>Exit\<close>, it
  passes the utterance to \<^verbatim>\<open>get_ai_response\<close>, and it returns \<open>Continue\<close> when
  \<^verbatim>\<open>get_ai_response\<close> and \<^verbatim>\<open>speak\<close> return.
\<close>

theorem embedded_exit_phrase:
  assumes "capture env = Inr t"
    and "p \<in> set exit_phrases" and "py_strip (py_lower t) = a @ p @ b"
    and "py_strip (py_lower t) \<notin> set exit_phrases"
  shows "snd (run_turn env) \<noteq> Inr Exit
       \<and> filter is_dialogue_call (fst (run_turn env)) = [GetAIResponse t]
       \<and> (\<forall>reply. snd (get_ai_response env t) = Inr reply \<longrightarrow> snd (speak env reply) = Inr ()
            \<longrightarrow> snd (run_turn env) = Inr Continue)"
proof -
  have "p \<noteq> []"
    using exit_phrase_shape [OF assms(2)] by simp
  with assms(3) have "py_strip (py_lower t) \<noteq> []" by simp
  then have "t \<noteq> []" by (auto simp add: py_strip_def py_lower_def)
  from forward_summary(1,2,5) [OF assms(1) this assms(4)] show ?thesis by blast
qed

theorem embedded_exit_phrase_witness:
  "''exit'' \<in> set exit_phrases
   \<and> py_strip (py_lower ''please exit now'') = ''please '' @ ''exit'' @ '' now''
   \<and> py_strip (py_lower ''please exit now'') \<notin> set exit_phrases
   \<and> snd (run_turn \<lparr>capture = Inr ''please exit now'', gemini = Inr ''Sure.'',
                     eleven = None, pyttsx = None\<rparr>) = Inr Continue
   \<and> filter is_dialogue_call
        (fst (run_turn \<lparr>capture = Inr ''please exit now'', gemini = Inr ''Sure.'',
                        eleven = None, pyttsx = None\<rparr>)) = [GetAIResponse ''please exit now'']"
proof -
  let ?env = "\<lparr>capture = Inr ''please exit now'', gemini = Inr ''Sure.'',
               eleven = None, pyttsx = None\<rparr>"
  have h1: "capture ?env = Inr ''please exit now''" by simp
  have h2: "''exit'' \<in> set exit_phrases" by (simp add: exit_phrases_def)
  have h3: "py_strip (py_lower ''please exit now'') = ''please '' @ ''exit'' @ '' now''"
    by code_simp
  have h4: "py_strip (py_lower ''please exit now'') \<notin> set exit_phrases" by code_simp
  have s: "py_strip ''Sure.'' = ''Sure.''" by code_simp
  have h5: "snd (get_ai_response ?env ''please exit now'') = Inr ''Sure.''"
    by (simp add: get_ai_response_def Let_def s)
  have h6: "snd (speak ?env ''Sure.'') = Inr ()" by (simp add: speak_def)
  from embedded_exit_phrase [OF h1 h2 h3 h4] h2 h3 h4 h5 h6 show ?thesis by blast
qed

text \<open>
  C9. Lowering and stripping serve the exit test only. For a captured, non-empty
  utterance that is not an exit phrase, the one text passed to \<^verbatim>\<open>get_ai_response\<close> is
  the utterance as captured; where the normalised form differs from it, the normalised
  form is not passed.
\<close>

theorem forwarded_text_is_original:
  assumes "capture env = Inr t" and "t \<noteq> []"
    and "py_strip (py_lower t) \<notin> set exit_phrases"
  shows "filter is_dialogue_call (fst (run_turn env)) = [GetAIResponse t]
       \<and> (py_strip (py_lower t) \<noteq> t \<longrightarrow>
            GetAIResponse (py_strip (py_lower t)) \<notin> set (fst (run_turn env)))"
proof -
  have d: "filter is_dialogue_call (fst (run_turn env)) = [GetAIResponse t]"
    using assms by (rule forward_summary(1))
  have "GetAIResponse x \<in> set (fst (run_turn env)) \<Longrightarrow> x = t" for x
  proof -
    assume "GetAIResponse x \<in> set (fst (run_turn env))"
    then have "GetAIResponse x \<in> set (filter is_dialogue_call (fst (run_turn env)))" by simp
    then show "x = t" by (simp add: d)
  qed
  with d show ?thesis by blast
qed

theorem forwarded_text_is_original_witness:
  "'' Hello There '' \<noteq> [] \<and> py_strip (py_lower '' Hello There '') = ''hello there''
   \<and> py_strip (py_lower '' Hello There '') \<notin> set exit_phrases
   \<and> filter is_dialogue_call
        (fst (run_turn \<lparr>capture = Inr '' Hello There '', gemini = Inr ''Hi'',
                        eleven = None, pyttsx = None\<rparr>)) = [GetAIResponse '' Hello There '']
   \<and> GetAIResponse ''hello there''
        \<notin> set (fst (run_turn \<lparr>capture = Inr '' Hello There '', gemini = Inr ''Hi'',
                              eleven = None, pyttsx = None\<rparr>))"
proof -
  let ?env = "\<lparr>capture = Inr '' Hello There '', gemini = Inr ''Hi'',
               eleven = None, pyttsx = None\<rparr>"
  have h1: "capture ?env = Inr '' Hello There ''" by simp
  have h2: "'' Hello There '' \<noteq> []" by simp
  have h3: "py_strip (py_lower '' Hello There '') = ''hello there''" by code_simp
  have h4: "py_strip (py_lower '' Hello There '') \<notin> set exit_phrases" by code_simp
  from forwarded_text_is_original [OF h1 h2 h4] h2 h3 h4 show ?thesis by simp
qed

text \<open>
  C10, as stated, fails where a call of the turn raises. For the utterance of two
  spaces, the turn raises instead of returning \<open>Continue\<close> when the dialogue call is
  interrupted (\<open>KeyboardInterrupt\<close>), when the playback of the reply is interrupted, and
  when the primary synthesis and the fallback engine both raise.
\<close>

theorem whitespace_utterance_forwarded_counterexample:
  "list_all py_isspace ''  ''
   \<and> snd (run_turn \<lparr>capture = Inr ''  '', gemini = Inl KeyboardInterrupt,
                     eleven = None, pyttsx = None\<rparr>) = Inl KeyboardInterrupt
   \<and> snd (run_turn \<lparr>capture = Inr ''  '', gemini = Inr ''Hello?'',
                     eleven = Some KeyboardInterrupt, pyttsx = None\<rparr>) = Inl KeyboardInterrupt
   \<and> snd (run_turn \<lparr>capture = Inr ''  '', gemini = Inr ''Hello?'',
                     eleven = Some (Exception OtherException ''quota''),
                     pyttsx = Some (Exception OtherException ''no driver'')\<rparr>) =
       Inl (Exception OtherException ''no driver'')"
  by code_simp

text \<open>
  C10, amended. A captured utterance that is not empty and consists of whitespace only passes
  the emptiness test (\<^verbatim>\<open>not user_text\<close> is false), normalises to the empty string,
  which is not an exit phrase, and is passed to \<^verbatim>\<open>get_ai_response\<close> as it is: the
  turn does not return \<open>Idle\<close>, and it returns \<open>Continue\<close> when \<^verbatim>\<open>get_ai_response\<close>
  and \<^verbatim>\<open>speak\<close> return.
\<close>

theorem whitespace_utterance_forwarded:
  assumes "capture env = Inr t" and "t \<noteq> []" and "list_all py_isspace t"
  shows "\<not> py_not (Some t)
       \<and> py_strip (py_lower t) \<notin> set exit_phrases
       \<and> snd (run_turn env) \<noteq> Inr Idle
       \<and> filter is_dialogue_call (fst (run_turn env)) = [GetAIResponse t]
       \<and> (\<forall>reply. snd (get_ai_response env t) = Inr reply \<longrightarrow> snd (speak env reply) = Inr ()
            \<longrightarrow> snd (run_turn env) = Inr Continue)"
proof -
  have "py_strip (py_lower t) = []"
    using assms(3) by (simp add: py_lower_spaces py_strip_spaces)
  then have nx: "py_strip (py_lower t) \<notin> set exit_phrases"
    by (simp add: exit_phrases_def)
  from forward_summary(1,3,5) [OF assms(1,2) nx] nx assms(2) show ?thesis by simp
qed

theorem whitespace_utterance_forwarded_witness:
  "''  '' \<noteq> [] \<and> list_all py_isspace ''  ''
   \<and> snd (run_turn \<lparr>capture = Inr ''  '', gemini = Inr ''Hello?'',
                     eleven = None, pyttsx = None\<rparr>) = Inr Continue
   \<and> filter is_dialogue_call
        (fst (run_turn \<lparr>capture = Inr ''  '', gemini = Inr ''Hello?'',
                        eleven = None, pyttsx = None\<rparr>)) = [GetAIResponse ''  '']"
proof -
  let ?env = "\<lparr>capture = Inr ''  '', gemini = Inr ''Hello?'', eleven = None, pyttsx = None\<rparr>"
  have h1: "capture ?env = Inr ''  ''" by simp
  have h2: "''  '' \<noteq> []" by simp
  have h3: "list_all py_isspace ''  ''" by (simp add: py_isspace_def)
  have s: "py_strip ''Hello?'' = ''Hello?''" by code_simp
  have h4: "snd (get_ai_response ?env ''  '') = Inr ''Hello?''"
    by (simp add: get_ai_response_def Let_def s)
  have h5: "snd (speak ?env ''Hello?'') = Inr ()" by (simp add: speak_def)
  from whitespace_utterance_forwarded [OF h1 h2 h3] h2 h3 h4 h5 show ?thesis by blast
qed

subsection \<open>Both synthesis paths fail\<close>

text \<open>
  Where the exception of the fallback engine goes: out of \<^verbatim>\<open>speak\<close> and out of the
  turn. Every other failure of class \<^verbatim>\<open>Exception\<close> stays inside the turn.
\<close>

lemma speak_double_failure:
  assumes "eleven env = Some (Exception c m)" and "pyttsx env = Some e"
  shows "snd (speak env t) = Inl e"
  using assms by (simp add: speak_def fallback_speak_def)

lemma run_turn_double_failure:
  assumes "Speak t \<in> set (fst (run_turn env))"
    and "eleven env = Some (Exception c m)" and "pyttsx env = Some e"
  shows "snd (run_turn env) = Inl e"
  using assms(1)
proof (cases rule: run_turn_speak_cases)
  case (exit u)
  obtain tr2 where "speak env farewell = (tr2, Inl e)"
    using speak_double_failure [OF assms(2,3), of farewell] by (cases "speak env farewell") simp
  then show ?thesis by (simp add: run_turn_exit [OF exit(1-3)])
next
  case (forward u tr2)
  obtain tr3 where "speak env t = (tr3, Inl e)"
    using speak_double_failure [OF assms(2,3), of t] by (cases "speak env t") simp
  then show ?thesis by (simp add: run_turn_forward [OF forward(1-3)] forward(4))
qed

lemma run_turn_recoverable:
  assumes "recoverable env"
  shows "\<exists>st. snd (run_turn env) = Inr st"
proof -
  have sp: "snd (speak env x) = Inr ()" for x
    using assms
    by (cases "eleven env")
       (auto simp add: recoverable_def speak_def fallback_speak_def elim: is_Exception.elims)
  show ?thesis
  proof (cases "capture env")
    case (Inl e)
    with assms obtain c m where "e = Exception c m"
      by (auto simp add: recoverable_def elim: is_Exception.elims)
    with Inl show ?thesis by (cases c) (simp_all add: run_turn_def listen_def)
  next
    case (Inr t)
    show ?thesis
    proof (cases "t = []")
      case True
      with Inr show ?thesis by (simp add: run_turn_def listen_heard)
    next
      case False
      show ?thesis
      proof (cases "py_strip (py_lower t) \<in> set exit_phrases")
        case True
        obtain tr2 where "speak env farewell = (tr2, Inr ())"
          using sp [of farewell] by (cases "speak env farewell") simp
        then show ?thesis by (simp add: run_turn_exit [OF Inr False True])
      next
        case nx: False
        have "\<exists>a. snd (get_ai_response env t) = Inr a"
          using assms
          by (cases "gemini env")
             (auto simp add: recoverable_def get_ai_response_def Let_def elim: is_Exception.elims)
        then obtain a where "snd (get_ai_response env t) = Inr a" ..
        from forward_summary(5) [OF Inr False nx this sp] show ?thesis by blast
      qed
    qed
  qed
qed

text \<open>
  C2. The specification lets a failure of the fallback synthesis end the current turn
  only. In the program \<^verbatim>\<open>fallback_speak\<close> has no handler, unlike \<^verbatim>\<open>listen\<close>,
  \<^verbatim>\<open>get_ai_response\<close> and the primary path of \<^verbatim>\<open>speak\<close>, which all catch
  \<^verbatim>\<open>Exception\<close>. The script below has a turn in which the primary synthesis raises and
  the fallback engine raises too, followed by one more turn. The exception leaves the
  loop, \<^verbatim>\<open>main\<close> prints "Unexpected error: no driver" and the process ends with
  status 0; the second turn never starts (the trace has one \<open>Listen\<close>).
\<close>

theorem double_synthesis_failure_trace:
  "main (Some ''g-key'') (Some ''e-key'') (Some ''voice'')
        \<lparr>configure = None, devices = None, calibrate = None\<rparr>
        [\<lparr>capture = Inr ''hello'', gemini = Inr ''hi'',
          eleven = Some (Exception OtherException ''quota''),
          pyttsx = Some (Exception OtherException ''no driver'')\<rparr>,
         \<lparr>capture = Inr ''hello again'', gemini = Inr ''hi again'',
          eleven = None, pyttsx = None\<rparr>] =
     ([Print ''Calibrating microphone, please wait...'',
       Print ''Microphone calibrated. Ready to chat!''] @ banner @
      [Listen, Print (CHR 0x0A # ''Listening...''), Print ''You said: hello'',
       GetAIResponse ''hello'', Print ''Thinking...'', Print ''AI says: hi'',
       Speak ''hi'', Print ''Speaking with ElevenLabs...'', Print ''ElevenLabs error: quota'',
       Print ''-> Using fallback pyttsx3 TTS.'', FallbackSpeak ''hi'',
       Print ''Unexpected error: no driver''], ExitCode 0)"
proof -
  have n: "py_strip (py_lower ''hello'') \<notin> set exit_phrases" by code_simp
  have s: "py_strip ''hi'' = ''hi''" by code_simp
  have rt: "run_turn \<lparr>capture = Inr ''hello'', gemini = Inr ''hi'',
          eleven = Some (Exception OtherException ''quota''),
          pyttsx = Some (Exception OtherException ''no driver'')\<rparr> =
    ([Listen, Print (CHR 0x0A # ''Listening...''), Print ''You said: hello'',
      GetAIResponse ''hello'', Print ''Thinking...'', Print ''AI says: hi'',
      Speak ''hi'', Print ''Speaking with ElevenLabs...'', Print ''ElevenLabs error: quota'',
      Print ''-> Using fallback pyttsx3 TTS.'', FallbackSpeak ''hi''],
     Inl (Exception OtherException ''no driver''))"
    by (simp add: run_turn_def listen_def get_ai_response_def speak_def fallback_speak_def
          Let_def n s)
  show ?thesis
    by (simp add: main_def init_def run_def rt)
qed

end
